theory Spec2Isabelle
  imports Complex_Main
begin

section \<open>The conversion pipeline of \<^verbatim>\<open>scripts/enhanced_convert_yolov8_to_tflite.py\<close>\<close>

text \<open>
  The script is a sequence of calls into third-party libraries (ultralytics, onnx,
  tensorflow, numpy, pathlib, json, time) with \<^verbatim>\<open>try/except Exception\<close> blocks around
  them. The embedding keeps that shape. Every library call is an event; whether the call
  raises, and the few values the script reads back from a library (does a path exist, is
  the input type \<^verbatim>\<open>uint8\<close>, the clock, a file size), are given by an environment that may
  depend on everything that happened before. Every \<^verbatim>\<open>logger\<close> call is an event as well.
  A method of the script is a function from the history so far to its result (an exception
  or a value) and the events it adds.

  Library failures are instances of \<^verbatim>\<open>Exception\<close>, which is what the script's handlers
  catch. Floating-point numbers are real numbers, with \<^verbatim>\<open>inf\<close> and \<^verbatim>\<open>nan\<close> as separate values.
\<close>

subsection \<open>Values\<close>

text \<open>
  A path is kept as the \<^verbatim>\<open>pathlib\<close> expression that built it: \<^verbatim>\<open>Path(s)\<close>, \<^verbatim>\<open>p / s\<close>,
  \<^verbatim>\<open>p.with_suffix(s)\<close>.
\<close>

datatype path = Path string | Div path string | WithSuffix path string

datatype exn = Exception string

datatype npfloat = Fin real | Inf | NaN

text \<open>A standard deviation is kept as the number it is the square root of.\<close>

datatype npstd = Sqrt real | Std_NaN

datatype dtype = Float32 | Float16 | UInt8

datatype optimize = Optimize_DEFAULT

datatype opsset = TFLITE_BUILTINS | SELECT_TF_OPS | TFLITE_BUILTINS_INT8

text \<open>\<^verbatim>\<open>np.random.random(shape).astype(dtype)\<close>: a tensor of the shape, drawn from \<open>[0, 1)\<close>.\<close>

datatype tensor = Random_random "nat list" dtype

datatype json =
    JString string
  | JInt int
  | JFloat real
  | JBool bool
  | JArray "json list"
  | JObject "(string \<times> json) list"

datatype yolo = YOLO path

subsection \<open>Log records\<close>

datatype level = INFO | ERROR

datatype msg =
    Loading_model_from path
  | Model_loaded_successfully
  | Model_classes
  | Number_of_classes
  | Failed_to_load_model exn
  | Exporting_to_ONNX path
  | ONNX_export_completed
  | ONNX_export_failed exn
  | Verifying_ONNX_model
  | ONNX_model_input
  | ONNX_model_output
  | ONNX_verification_failed exn
  | Converting_to_TFLite string
  | TFLite_model_saved_to path
  | TFLite_conversion_failed exn
  | Generating_representative_dataset
  | Verifying_TFLite_model path
  | Input_shape
  | Input_type
  | Output_shape
  | Output_type
  | Test_inference_output_shape
  | TFLite_verification_failed exn
  | Benchmarking_model path
  | Benchmark_results_for path
  | Average_inference_time npfloat npstd
  | Estimated_FPS npfloat
  | Model_size real
  | Benchmarking_failed exn
  | Model_metadata_saved_to path
  | Converting_to string
  | Failed_to_convert_to string
  | Conversion_completed string
  | Model_file_not_found string
  | Conversion_completed_successfully
  | Output_directory path
  | Next_steps
  | Next_step_1
  | Next_step_2
  | Next_step_3
  | Conversion_failed
  | Conversion_failed_with_error exn

subsection \<open>Library calls\<close>

text \<open>
  What a generator does when it is iterated: it logs, and it yields. The converter object
  of TensorFlow Lite is the record of the attributes the script assigns; \<open>None\<close> is an
  attribute the script leaves as the library made it.
\<close>

datatype gen_item = Gen_log level msg | Gen_yield "tensor list"

record tflite_converter =
  optimizations :: "optimize list"
  supported_types :: "dtype list option"
  supported_ops :: "opsset list option"
  representative_dataset :: "gen_item list option"
  inference_input_type :: "dtype option"
  inference_output_type :: "dtype option"
  experimental_new_converter :: bool
  allow_custom_ops :: bool

record export_kwargs =
  format :: string
  imgsz :: nat
  dynamic :: bool
  simplify :: bool
  opset :: nat

datatype call =
    Path_exists path
  | Path_mkdir path
  | Path_with_suffix path string
  | Path_rename path path
  | Path_stat path
  | YOLO_load path
  | Model_names
  | Model_export yolo export_kwargs
  | Onnx_load path
  | Onnx_check_model
  | Onnx_graph_input_name
  | Onnx_graph_output_name
  | From_onnx path
  | Convert tflite_converter
  | Open_file path string
  | Write_file path
  | Close_file path
  | Json_dump json nat path
  | Interpreter path
  | Allocate_tensors
  | Get_input_details
  | Get_output_details
  | Input_detail string
  | Output_detail string
  | Np_random_randint nat nat dtype
  | Np_random_random
  | Np_astype
  | Set_tensor
  | Invoke
  | Get_tensor
  | Time_time

datatype outcome = Returned | Raised string

datatype event = Called call outcome | Logged level msg

record env =
  raises :: "event list \<Rightarrow> call \<Rightarrow> string option"
  exists_result :: "event list \<Rightarrow> path \<Rightarrow> bool"
  dtype_is_uint8 :: "event list \<Rightarrow> bool"
  clock :: "event list \<Rightarrow> real"
  st_size :: "event list \<Rightarrow> path \<Rightarrow> nat"

subsection \<open>Control flow\<close>

text \<open>
  A program takes the history and gives its result with the events it adds. \<open>Inl\<close> is an
  exception leaving the program.
\<close>

type_synonym 'a prog = "event list \<Rightarrow> (exn + 'a) \<times> event list"

definition returnE :: "'a \<Rightarrow> 'a prog" where
  "returnE x h = (Inr x, [])"

definition raiseE :: "exn \<Rightarrow> 'a prog" where
  "raiseE e h = (Inl e, [])"

definition bindE :: "'a prog \<Rightarrow> ('a \<Rightarrow> 'b prog) \<Rightarrow> 'b prog" where
  "bindE m f h =
     (case m h of
        (Inl e, n) \<Rightarrow> (Inl e, n)
      | (Inr x, n) \<Rightarrow> (case f x (h @ n) of (r, n') \<Rightarrow> (r, n @ n')))"

definition thenE :: "'a prog \<Rightarrow> 'b prog \<Rightarrow> 'b prog" where
  "thenE m k = bindE m (\<lambda>_. k)"

fun seqE :: "unit prog list \<Rightarrow> unit prog" where
  "seqE [] = returnE ()"
| "seqE (m # ms) = thenE m (seqE ms)"

text \<open>\<^verbatim>\<open>try: body except Exception as e: handler\<close>\<close>

definition try_except :: "'a prog \<Rightarrow> (exn \<Rightarrow> 'a prog) \<Rightarrow> 'a prog" where
  "try_except body handler h =
     (case body h of
        (Inl e, n) \<Rightarrow> (case handler e (h @ n) of (r, n') \<Rightarrow> (r, n @ n'))
      | (Inr x, n) \<Rightarrow> (Inr x, n))"

text \<open>
  The exit of a \<^verbatim>\<open>with\<close> block: \<open>fin\<close> runs whatever \<open>body\<close> did, and an exception of
  \<open>fin\<close> replaces the result of \<open>body\<close>.
\<close>

definition finallyE :: "'a prog \<Rightarrow> unit prog \<Rightarrow> 'a prog" where
  "finallyE body fin h =
     (case body h of (r, n) \<Rightarrow>
        (case fin (h @ n) of
           (Inl e, n') \<Rightarrow> (Inl e, n @ n')
         | (Inr _, n') \<Rightarrow> (r, n @ n')))"

text \<open>\<^verbatim>\<open>for _ in range(n): body\<close>\<close>

fun repeatE :: "nat \<Rightarrow> unit prog \<Rightarrow> unit prog" where
  "repeatE 0 body = returnE ()"
| "repeatE (Suc n) body = thenE body (repeatE n body)"

definition lib :: "env \<Rightarrow> call \<Rightarrow> unit prog" where
  "lib E c h =
     (case raises E h c of
        Some m \<Rightarrow> (Inl (Exception m), [Called c (Raised m)])
      | None \<Rightarrow> (Inr (), [Called c Returned]))"

definition askE :: "(event list \<Rightarrow> 'a) \<Rightarrow> 'a prog" where
  "askE f h = (Inr (f h), [])"

definition logger_info :: "msg \<Rightarrow> unit prog" where
  "logger_info m h = (Inr (), [Logged INFO m])"

definition logger_error :: "msg \<Rightarrow> unit prog" where
  "logger_error m h = (Inr (), [Logged ERROR m])"

definition path_exists :: "env \<Rightarrow> path \<Rightarrow> bool prog" where
  "path_exists E p = thenE (lib E (Path_exists p)) (askE (\<lambda>h. exists_result E h p))"

definition time_time :: "env \<Rightarrow> real prog" where
  "time_time E = thenE (lib E Time_time) (askE (clock E))"

definition with_open :: "env \<Rightarrow> path \<Rightarrow> string \<Rightarrow> unit prog \<Rightarrow> unit prog" where
  "with_open E p mode body =
     thenE (lib E (Open_file p mode)) (finallyE body (lib E (Close_file p)))"

subsection \<open>The numbers of the benchmark\<close>

text \<open>
  \<^verbatim>\<open>np.mean\<close> and \<^verbatim>\<open>np.std\<close> of a list of floats (\<^verbatim>\<open>nan\<close>, with a warning, on the empty list),
  and \<^verbatim>\<open>1000.0 / avg_time\<close>, a division of numpy that gives \<^verbatim>\<open>inf\<close>, with a warning, at zero.
\<close>

definition np_mean :: "real list \<Rightarrow> npfloat" where
  "np_mean xs = (if xs = [] then NaN else Fin (sum_list xs / real (length xs)))"

definition np_std :: "real list \<Rightarrow> npstd" where
  "np_std xs =
     (if xs = [] then Std_NaN
      else let m = sum_list xs / real (length xs)
           in Sqrt (sum_list (map (\<lambda>x. (x - m)\<^sup>2) xs) / real (length xs)))"

fun np_divide :: "real \<Rightarrow> npfloat \<Rightarrow> npfloat" where
  "np_divide a (Fin b) = (if b = 0 then (if a = 0 then NaN else Inf) else Fin (a / b))"
| "np_divide a Inf = Fin 0"
| "np_divide a NaN = NaN"

subsection \<open>\<^verbatim>\<open>class YOLOv8ToTFLiteConverter\<close>\<close>

record converter =
  model_path :: path
  output_dir :: path
  model_name :: string
  input_size :: nat
  onnx_path :: path
  tflite_path :: path
  tflite_fp16_path :: path
  tflite_int8_path :: path

text \<open>\<^verbatim>\<open>__init__(self, model_path, output_dir, model_name)\<close>\<close>

definition init :: "env \<Rightarrow> string \<Rightarrow> string \<Rightarrow> string \<Rightarrow> converter prog" where
  "init E model_path' output_dir' model_name' =
     thenE (lib E (Path_mkdir (Path output_dir')))
       (returnE
          \<lparr>model_path = Path model_path',
           output_dir = Path output_dir',
           model_name = model_name',
           input_size = 640,
           onnx_path = Div (Path output_dir') (model_name' @ ''.onnx''),
           tflite_path = Div (Path output_dir') (model_name' @ ''.tflite''),
           tflite_fp16_path = Div (Path output_dir') (model_name' @ ''_fp16.tflite''),
           tflite_int8_path = Div (Path output_dir') (model_name' @ ''_int8.tflite'')\<rparr>)"

definition load_yolo_model :: "env \<Rightarrow> converter \<Rightarrow> yolo prog" where
  "load_yolo_model E self =
     try_except
       (thenE
          (seqE
             [logger_info (Loading_model_from (model_path self)),
              lib E (YOLO_load (model_path self)),
              logger_info Model_loaded_successfully,
              lib E Model_names,
              logger_info Model_classes,
              lib E Model_names,
              logger_info Number_of_classes])
          (returnE (YOLO (model_path self))))
       (\<lambda>e. thenE (logger_error (Failed_to_load_model e)) (raiseE e))"

definition verify_onnx_model :: "env \<Rightarrow> converter \<Rightarrow> bool prog" where
  "verify_onnx_model E self =
     try_except
       (thenE
          (seqE
             [logger_info Verifying_ONNX_model,
              lib E (Onnx_load (onnx_path self)),
              lib E Onnx_check_model,
              lib E Onnx_graph_input_name,
              logger_info ONNX_model_input,
              lib E Onnx_graph_output_name,
              logger_info ONNX_model_output])
          (returnE True))
       (\<lambda>e. thenE (logger_error (ONNX_verification_failed e)) (returnE False))"

definition export_to_onnx :: "env \<Rightarrow> converter \<Rightarrow> yolo \<Rightarrow> bool prog" where
  "export_to_onnx E self model =
     try_except
       (thenE
          (seqE
             [logger_info (Exporting_to_ONNX (onnx_path self)),
              lib E (Model_export model
                \<lparr>format = ''onnx'', imgsz = input_size self, dynamic = False,
                 simplify = True, opset = 11\<rparr>),
              lib E (Path_with_suffix (model_path self) ''.onnx'')])
          (let generated_onnx = WithSuffix (model_path self) ''.onnx'' in
           bindE (path_exists E generated_onnx) (\<lambda>ex.
             thenE
               (seqE
                  [if ex then lib E (Path_rename generated_onnx (onnx_path self))
                   else returnE (),
                   bindE (verify_onnx_model E self) (\<lambda>_. returnE ()),
                   logger_info ONNX_export_completed])
               (returnE True))))
       (\<lambda>e. thenE (logger_error (ONNX_export_failed e)) (returnE False))"

text \<open>
  \<^verbatim>\<open>_representative_dataset_generator\<close>: what iterating the generator does. The loop
  \<^verbatim>\<open>for _ in range(100)\<close> is the recursion of \<open>yield_loop\<close>.
\<close>

fun yield_loop :: "nat \<Rightarrow> converter \<Rightarrow> gen_item list" where
  "yield_loop 0 self = []"
| "yield_loop (Suc n) self =
     Gen_yield [Random_random [1, input_size self, input_size self, 3] Float32]
       # yield_loop n self"

definition representative_dataset_generator :: "converter \<Rightarrow> gen_item list" where
  "representative_dataset_generator self =
     Gen_log INFO Generating_representative_dataset # yield_loop 100 self"

text \<open>
  The input tensor of a test inference (the same lines in \<^verbatim>\<open>_verify_tflite_model\<close> and
  in \<^verbatim>\<open>_benchmark_model\<close>): \<^verbatim>\<open>input_shape = input_details[0]['shape']\<close>, then the test of
  \<^verbatim>\<open>input_details[0]['dtype'] == np.uint8\<close>, then one of the two random tensors.
\<close>

definition make_input_data :: "env \<Rightarrow> unit prog" where
  "make_input_data E =
     thenE (lib E (Input_detail ''shape''))
       (bindE (thenE (lib E (Input_detail ''dtype'')) (askE (dtype_is_uint8 E))) (\<lambda>u8.
          if u8 then lib E (Np_random_randint 0 256 UInt8)
          else seqE [lib E Np_random_random, lib E (Input_detail ''dtype''), lib E Np_astype]))"

text \<open>\<^verbatim>\<open>interpreter.set_tensor(input_details[0]['index'], input_data); interpreter.invoke()\<close>\<close>

definition inference :: "env \<Rightarrow> unit prog" where
  "inference E = seqE [lib E (Input_detail ''index''), lib E Set_tensor, lib E Invoke]"

definition verify_tflite_model :: "env \<Rightarrow> converter \<Rightarrow> path \<Rightarrow> bool prog" where
  "verify_tflite_model E self model_path' =
     try_except
       (thenE
          (seqE
             [logger_info (Verifying_TFLite_model model_path'),
              lib E (Interpreter model_path'),
              lib E Allocate_tensors,
              lib E Get_input_details,
              lib E Get_output_details,
              lib E (Input_detail ''shape''),
              logger_info Input_shape,
              lib E (Input_detail ''dtype''),
              logger_info Input_type,
              lib E (Output_detail ''shape''),
              logger_info Output_shape,
              lib E (Output_detail ''dtype''),
              logger_info Output_type,
              make_input_data E,
              inference E,
              lib E (Output_detail ''index''),
              lib E Get_tensor,
              logger_info Test_inference_output_shape])
          (returnE True))
       (\<lambda>e. thenE (logger_error (TFLite_verification_failed e)) (returnE False))"

text \<open>The timed loop of \<^verbatim>\<open>_benchmark_model\<close>, with the list \<^verbatim>\<open>times\<close> it appends to.\<close>

fun timed_loop :: "env \<Rightarrow> nat \<Rightarrow> real list \<Rightarrow> real list prog" where
  "timed_loop E 0 times' = returnE times'"
| "timed_loop E (Suc n) times' =
     bindE (time_time E) (\<lambda>start_time.
       thenE (inference E)
         (bindE (time_time E) (\<lambda>end_time.
            timed_loop E n (times' @ [(end_time - start_time) * 1000]))))"

definition benchmark_model :: "env \<Rightarrow> converter \<Rightarrow> path \<Rightarrow> nat \<Rightarrow> unit prog" where
  "benchmark_model E self model_path' num_runs =
     try_except
       (thenE
          (seqE
             [logger_info (Benchmarking_model model_path'),
              lib E (Interpreter model_path'),
              lib E Allocate_tensors,
              lib E Get_input_details,
              make_input_data E,
              repeatE 5 (inference E)])
          (bindE (timed_loop E num_runs []) (\<lambda>times'.
             let avg_time = np_mean times';
                 std_time = np_std times';
                 fps = np_divide 1000 avg_time
             in thenE
                  (seqE
                     [logger_info (Benchmark_results_for model_path'),
                      logger_info (Average_inference_time avg_time std_time),
                      logger_info (Estimated_FPS fps),
                      lib E (Path_stat model_path')])
                  (bindE (askE (\<lambda>h. st_size E h model_path')) (\<lambda>size.
                     logger_info (Model_size (real size / (1024 * 1024))))))))
       (\<lambda>e. logger_error (Benchmarking_failed e))"

text \<open>The default of the parameter \<^verbatim>\<open>num_runs\<close>.\<close>

definition num_runs_default :: nat where
  "num_runs_default = 50"

text \<open>
  Lines 117 to 148 of \<^verbatim>\<open>convert_to_tflite\<close>: the attributes assigned to the converter
  object and the output path, by quantization.
\<close>

definition configure :: "converter \<Rightarrow> string \<Rightarrow> path \<times> tflite_converter" where
  "configure self quantization =
     (let converter =
            \<lparr>optimizations = [Optimize_DEFAULT],
             supported_types = None, supported_ops = None,
             representative_dataset = None,
             inference_input_type = None, inference_output_type = None,
             experimental_new_converter = True, allow_custom_ops = False\<rparr>
      in if quantization = ''fp16'' then
           (tflite_fp16_path self,
            converter\<lparr>supported_types := Some [Float16],
                      supported_ops := Some [TFLITE_BUILTINS, SELECT_TF_OPS]\<rparr>)
         else if quantization = ''int8'' then
           (tflite_int8_path self,
            converter\<lparr>supported_ops := Some [TFLITE_BUILTINS_INT8, TFLITE_BUILTINS],
                      representative_dataset := Some (representative_dataset_generator self),
                      inference_input_type := Some UInt8,
                      inference_output_type := Some UInt8\<rparr>)
         else
           (tflite_path self,
            converter\<lparr>supported_types := Some [Float32],
                      supported_ops := Some [TFLITE_BUILTINS, SELECT_TF_OPS]\<rparr>))"

definition convert_to_tflite :: "env \<Rightarrow> converter \<Rightarrow> string \<Rightarrow> bool prog" where
  "convert_to_tflite E self quantization =
     try_except
       (case configure self quantization of (output_path, converter) \<Rightarrow>
          thenE
            (seqE
               [logger_info (Converting_to_TFLite quantization),
                lib E (From_onnx (onnx_path self)),
                lib E (Convert converter),
                with_open E output_path ''wb'' (lib E (Write_file output_path)),
                logger_info (TFLite_model_saved_to output_path),
                bindE (verify_tflite_model E self output_path) (\<lambda>_. returnE ()),
                benchmark_model E self output_path num_runs_default])
            (returnE True))
       (\<lambda>e. thenE (logger_error (TFLite_conversion_failed e)) (returnE False))"

definition metadata :: "converter \<Rightarrow> json" where
  "metadata self =
     JObject
       [(''name'', JString (model_name self)),
        (''version'', JString ''1.0''),
        (''description'', JString ''YOLOv8 model for golf ball and club head detection''),
        (''input_shape'',
           JArray [JInt 1, JInt (int (input_size self)), JInt (int (input_size self)), JInt 3]),
        (''input_type'', JString ''float32''),
        (''input_normalization'', JString ''0-1''),
        (''classes'', JArray [JString ''ball'', JString ''club_head'']),
        (''confidence_threshold'', JFloat 0.25),
        (''nms_threshold'', JFloat 0.45),
        (''preprocessing'',
           JObject
             [(''resize'', JArray [JInt (int (input_size self)), JInt (int (input_size self))]),
              (''normalize'', JBool True),
              (''mean'', JArray [JFloat 0, JFloat 0, JFloat 0]),
              (''std'', JArray [JFloat 255, JFloat 255, JFloat 255])]),
        (''postprocessing'',
           JObject [(''output_format'', JString ''yolov8''), (''apply_nms'', JBool True)])]"

definition metadata_path :: "converter \<Rightarrow> path" where
  "metadata_path self = Div (output_dir self) (model_name self @ ''_metadata.json'')"

definition create_model_metadata :: "env \<Rightarrow> converter \<Rightarrow> unit prog" where
  "create_model_metadata E self =
     seqE
       [with_open E (metadata_path self) ''w''
          (lib E (Json_dump (metadata self) 2 (metadata_path self))),
        logger_info (Model_metadata_saved_to (metadata_path self))]"

text \<open>
  The loop of \<^verbatim>\<open>convert_all_variants\<close> over the list \<^verbatim>\<open>variants\<close>, with the variable
  \<^verbatim>\<open>success\<close> it assigns.
\<close>

fun variants_loop :: "env \<Rightarrow> converter \<Rightarrow> (string \<times> string) list \<Rightarrow> bool \<Rightarrow> bool prog" where
  "variants_loop E self [] success = returnE success"
| "variants_loop E self ((quantization, description) # variants) success =
     thenE (logger_info (Converting_to description))
       (bindE (convert_to_tflite E self quantization) (\<lambda>ok.
          if \<not> ok then
            thenE (logger_error (Failed_to_convert_to description))
              (variants_loop E self variants False)
          else
            thenE (logger_info (Conversion_completed description))
              (variants_loop E self variants success)))"

definition variants :: "(string \<times> string) list" where
  "variants = [(''none'', ''FP32''), (''fp16'', ''FP16''), (''int8'', ''INT8'')]"

definition convert_all_variants :: "env \<Rightarrow> converter \<Rightarrow> bool prog" where
  "convert_all_variants E self =
     bindE (load_yolo_model E self) (\<lambda>model.
       bindE (export_to_onnx E self model) (\<lambda>exported.
         if \<not> exported then returnE False
         else
           bindE (variants_loop E self variants True) (\<lambda>success.
             thenE (create_model_metadata E self) (returnE success))))"

subsection \<open>\<^verbatim>\<open>main\<close>\<close>

text \<open>The namespace \<^verbatim>\<open>args\<close> that \<^verbatim>\<open>argparse\<close> returns.\<close>

record args =
  arg_model_path :: string
  arg_output_dir :: string
  arg_model_name :: string
  arg_quantization :: string

definition conversion :: "env \<Rightarrow> converter \<Rightarrow> string \<Rightarrow> bool prog" where
  "conversion E converter quantization =
     (if quantization = ''all'' then convert_all_variants E converter
      else
        bindE (load_yolo_model E converter) (\<lambda>model.
          bindE (export_to_onnx E converter model) (\<lambda>success.
            if success then
              bindE (convert_to_tflite E converter quantization) (\<lambda>success'.
                thenE (create_model_metadata E converter) (returnE success'))
            else returnE success)))"

definition main :: "env \<Rightarrow> args \<Rightarrow> int prog" where
  "main E a =
     bindE (path_exists E (Path (arg_model_path a))) (\<lambda>ex.
       if \<not> ex then
         thenE (logger_error (Model_file_not_found (arg_model_path a))) (returnE 1)
       else
         bindE (init E (arg_model_path a) (arg_output_dir a) (arg_model_name a)) (\<lambda>converter.
           try_except
             (bindE (conversion E converter (arg_quantization a)) (\<lambda>success.
                if success then
                  thenE
                    (seqE
                       [logger_info Conversion_completed_successfully,
                        logger_info (Output_directory (output_dir converter)),
                        logger_info Next_steps,
                        logger_info Next_step_1,
                        logger_info Next_step_2,
                        logger_info Next_step_3])
                    (returnE 0)
                else thenE (logger_error Conversion_failed) (returnE 1)))
             (\<lambda>e. thenE (logger_error (Conversion_failed_with_error e)) (returnE 1))))"

text \<open>
  \<^verbatim>\<open>sys.exit(main())\<close>: the exit status is what \<^verbatim>\<open>main\<close> returns, and 1 when an exception
  leaves \<^verbatim>\<open>main\<close>.
\<close>

definition exit_status :: "env \<Rightarrow> args \<Rightarrow> event list \<Rightarrow> int" where
  "exit_status E a h = (case fst (main E a h) of Inl e \<Rightarrow> 1 | Inr status \<Rightarrow> status)"

section \<open>Observations on a trace\<close>

text \<open>
  The library calls of the three diagnostic steps: the check of the interchange file
  (\<^verbatim>\<open>_verify_onnx_model\<close>), the test inference (\<^verbatim>\<open>_verify_tflite_model\<close>) and the
  benchmark (\<^verbatim>\<open>_benchmark_model\<close>). No other step makes one of these calls.
\<close>

fun diagnostic :: "call \<Rightarrow> bool" where
  "diagnostic (Onnx_load p) = True"
| "diagnostic Onnx_check_model = True"
| "diagnostic Onnx_graph_input_name = True"
| "diagnostic Onnx_graph_output_name = True"
| "diagnostic (Interpreter p) = True"
| "diagnostic Allocate_tensors = True"
| "diagnostic Get_input_details = True"
| "diagnostic Get_output_details = True"
| "diagnostic (Input_detail k) = True"
| "diagnostic (Output_detail k) = True"
| "diagnostic (Np_random_randint lo hi t) = True"
| "diagnostic Np_random_random = True"
| "diagnostic Np_astype = True"
| "diagnostic Set_tensor = True"
| "diagnostic Invoke = True"
| "diagnostic Get_tensor = True"
| "diagnostic Time_time = True"
| "diagnostic (Path_stat p) = True"
| "diagnostic c = False"

text \<open>A library call that raised; a call that raised outside the diagnostic steps.\<close>

fun is_raised :: "event \<Rightarrow> bool" where
  "is_raised (Called c (Raised m)) = True"
| "is_raised ev = False"

fun essential_raised :: "event \<Rightarrow> bool" where
  "essential_raised (Called c (Raised m)) = (\<not> diagnostic c)"
| "essential_raised ev = False"

text \<open>
  Four properties of a program, each for every history: it raises exactly when its trace
  has an event \<open>P\<close>; its trace has no event \<open>P\<close>; it never raises; it returns the boolean
  that says its trace has no event \<open>P\<close>.
\<close>

definition tracks :: "(event \<Rightarrow> bool) \<Rightarrow> 'a prog \<Rightarrow> bool" where
  "tracks P p = (\<forall>h. isl (fst (p h)) = list_ex P (snd (p h)))"

definition mute :: "(event \<Rightarrow> bool) \<Rightarrow> 'a prog \<Rightarrow> bool" where
  "mute P p = (\<forall>h. \<not> list_ex P (snd (p h)))"

definition total :: "'a prog \<Rightarrow> bool" where
  "total p = (\<forall>h. \<not> isl (fst (p h)))"

definition verdict :: "(event \<Rightarrow> bool) \<Rightarrow> bool prog \<Rightarrow> bool" where
  "verdict P p = (\<forall>h. fst (p h) = Inr (\<not> list_ex P (snd (p h))))"

text \<open>
  Two weaker forms of \<open>verdict\<close>, for a program that may raise: with an event \<open>P\<close> in
  its trace when it does, and otherwise returning \<open>True\<close> without such an event
  (\<open>succeeds\<close>), or the boolean that says there is no such event (\<open>judged\<close>).
\<close>

definition succeeds :: "(event \<Rightarrow> bool) \<Rightarrow> bool prog \<Rightarrow> bool" where
  "succeeds P p =
     (\<forall>h. case p h of (Inl e, n) \<Rightarrow> list_ex P n | (Inr b, n) \<Rightarrow> b \<and> \<not> list_ex P n)"

definition judged :: "(event \<Rightarrow> bool) \<Rightarrow> bool prog \<Rightarrow> bool" where
  "judged P p =
     (\<forall>h. case p h of (Inl e, n) \<Rightarrow> list_ex P n | (Inr b, n) \<Rightarrow> b = (\<not> list_ex P n))"

subsection \<open>What a predicate on events can see\<close>

text \<open>
  The two log lines that open the export step and the convert step. A predicate that
  \<open>ignores_diagnostics\<close> holds of no diagnostic library call and of no log line but these
  two; one that \<open>ignores_calls\<close> holds of no library call at all.
\<close>

fun step_marker :: "msg \<Rightarrow> bool" where
  "step_marker (Exporting_to_ONNX p) = True"
| "step_marker (Converting_to_TFLite q) = True"
| "step_marker m = False"

definition ignores_diagnostics :: "(event \<Rightarrow> bool) \<Rightarrow> bool" where
  "ignores_diagnostics P =
     ((\<forall>c r. diagnostic c \<longrightarrow> \<not> P (Called c r)) \<and>
      (\<forall>l m. \<not> step_marker m \<longrightarrow> \<not> P (Logged l m)))"

definition ignores_calls :: "(event \<Rightarrow> bool) \<Rightarrow> bool" where
  "ignores_calls P =
     ((\<forall>c r. \<not> P (Called c r)) \<and> (\<forall>l m. \<not> step_marker m \<longrightarrow> \<not> P (Logged l m)))"

text \<open>
  Library calls by kind: the calls that write to the filesystem, the export of the model,
  the relocations that went through, the converter objects handed to \<^verbatim>\<open>convert()\<close>, the
  batches a generator yields, and a member of a JSON object.
\<close>

fun performs :: "(call \<Rightarrow> bool) \<Rightarrow> event \<Rightarrow> bool" where
  "performs C (Called c r) = C c"
| "performs C (Logged l m) = False"

fun filesystem_write :: "call \<Rightarrow> bool" where
  "filesystem_write (Path_mkdir p) = True"
| "filesystem_write (Path_rename p p') = True"
| "filesystem_write (Model_export model kwargs) = True"
| "filesystem_write (Open_file p mode) = True"
| "filesystem_write (Write_file p) = True"
| "filesystem_write (Json_dump j indent p) = True"
| "filesystem_write c = False"

fun library_export :: "call \<Rightarrow> bool" where
  "library_export (Model_export model kwargs) = True"
| "library_export c = False"

fun is_rename :: "call \<Rightarrow> bool" where
  "is_rename (Path_rename p p') = True"
| "is_rename c = False"


fun renames :: "event list \<Rightarrow> (path \<times> path) list" where
  "renames [] = []"
| "renames (Called (Path_rename p p') Returned # evs) = (p, p') # renames evs"
| "renames (ev # evs) = renames evs"



fun json_get :: "json \<Rightarrow> string \<Rightarrow> json option" where
  "json_get (JObject members) key = map_of members key"
| "json_get j key = None"

text \<open>
  The steps a run attempts, in order: an export step is attempted when its first log line
  is written, a convert step likewise, with the quantization the line names.
\<close>

datatype step = Export_step | Convert_step string

fun attempts :: "event list \<Rightarrow> step list" where
  "attempts [] = []"
| "attempts (Logged INFO (Exporting_to_ONNX p) # evs) = Export_step # attempts evs"
| "attempts (Logged INFO (Converting_to_TFLite q) # evs) = Convert_step q # attempts evs"
| "attempts (ev # evs) = attempts evs"

fun is_attempt :: "event \<Rightarrow> bool" where
  "is_attempt (Logged l m) = step_marker m"
| "is_attempt (Called c r) = False"

subsection \<open>What the benchmark does and reports\<close>









subsection \<open>The aggregate result, as the specification words it\<close>

text \<open>
  One variant: the convert step with the two log lines around it, returning what the
  convert step returned. All variants: the export once, then the three variants in the
  order unquantized, half precision, integer, then the metadata, and as result the
  conjunction of the three convert results.
\<close>

definition variant :: "env \<Rightarrow> converter \<Rightarrow> string \<Rightarrow> string \<Rightarrow> bool prog" where
  "variant E self quantization description =
     thenE (logger_info (Converting_to description))
       (bindE (convert_to_tflite E self quantization) (\<lambda>ok.
          thenE (if ok then logger_info (Conversion_completed description)
                 else logger_error (Failed_to_convert_to description))
            (returnE ok)))"

definition all_variants_and :: "env \<Rightarrow> converter \<Rightarrow> bool prog" where
  "all_variants_and E self =
     bindE (load_yolo_model E self) (\<lambda>model.
       bindE (export_to_onnx E self model) (\<lambda>exported.
         if \<not> exported then returnE False
         else
           bindE (variant E self ''none'' ''FP32'') (\<lambda>fp32.
             bindE (variant E self ''fp16'' ''FP16'') (\<lambda>fp16.
               bindE (variant E self ''int8'' ''INT8'') (\<lambda>int8.
                 thenE (create_model_metadata E self)
                   (returnE (fp32 \<and> fp16 \<and> int8)))))))"

section \<open>Concrete runs\<close>

text \<open>
  A library whose calls raise as \<open>r\<close> says and where the paths \<open>ex\<close> exist; every input
  is a float tensor, and the clock advances by one second with every event.
\<close>

definition library :: "(call \<Rightarrow> string option) \<Rightarrow> (path \<Rightarrow> bool) \<Rightarrow> env" where
  "library r ex =
     \<lparr>raises = (\<lambda>h. r), exists_result = (\<lambda>h. ex), dtype_is_uint8 = (\<lambda>h. False),
      clock = (\<lambda>h. real (length h)), st_size = (\<lambda>h p. 0)\<rparr>"

definition all_fine :: env where
  "all_fine = library (\<lambda>c. None) (\<lambda>p. True)"

text \<open>The converted artifact cannot be loaded by the interpreter.\<close>

definition corrupt_artifact :: env where
  "corrupt_artifact =
     library (\<lambda>c. case c of Interpreter p \<Rightarrow> Some ''corrupt'' | _ \<Rightarrow> None) (\<lambda>p. True)"

text \<open>The checker of the interchange format rejects the exported file.\<close>

definition onnx_invalid :: env where
  "onnx_invalid =
     library (\<lambda>c. case c of Onnx_check_model \<Rightarrow> Some ''invalid'' | _ \<Rightarrow> None) (\<lambda>p. True)"

text \<open>The converter of TensorFlow Lite rejects the model.\<close>

definition convert_fails :: env where
  "convert_fails =
     library (\<lambda>c. case c of Convert converter \<Rightarrow> Some ''unsupported'' | _ \<Rightarrow> None) (\<lambda>p. True)"

text \<open>No path exists.\<close>

definition missing_source :: env where
  "missing_source = library (\<lambda>c. None) (\<lambda>p. False)"

text \<open>Only the source model exists: the export left no file beside it.\<close>

definition nothing_generated :: env where
  "nothing_generated = library (\<lambda>c. None) (\<lambda>p. p = Path ''best.pt'')"

text \<open>The source model cannot be loaded.\<close>

definition load_fails :: env where
  "load_fails =
     library (\<lambda>c. case c of YOLO_load p \<Rightarrow> Some ''unreadable'' | _ \<Rightarrow> None) (\<lambda>p. True)"

text \<open>The export of the library fails.\<close>

definition export_fails :: env where
  "export_fails =
     library (\<lambda>c. case c of Model_export model kwargs \<Rightarrow> Some ''unsupported'' | _ \<Rightarrow> None)
       (\<lambda>p. True)"

definition golf :: converter where
  "golf =
     \<lparr>model_path = Path ''best.pt'',
      output_dir = Path ''models'',
      model_name = ''golf'',
      input_size = 640,
      onnx_path = Div (Path ''models'') ''golf.onnx'',
      tflite_path = Div (Path ''models'') ''golf.tflite'',
      tflite_fp16_path = Div (Path ''models'') ''golf_fp16.tflite'',
      tflite_int8_path = Div (Path ''models'') ''golf_int8.tflite''\<rparr>"

definition golf_args :: "string \<Rightarrow> args" where
  "golf_args quantization =
     \<lparr>arg_model_path = ''best.pt'', arg_output_dir = ''models'',
      arg_model_name = ''golf'', arg_quantization = quantization\<rparr>"

section \<open>How events and results compose\<close>

lemma tracks_returnE: "tracks P (returnE x)"
  by (simp add: tracks_def returnE_def)

lemma tracks_askE: "tracks P (askE f)"
  by (simp add: tracks_def askE_def)

lemma tracks_logger_info: "tracks is_raised (logger_info m)" "tracks essential_raised (logger_info m)"
  by (simp_all add: tracks_def logger_info_def)

lemma tracks_logger_error: "tracks is_raised (logger_error m)" "tracks essential_raised (logger_error m)"
  by (simp_all add: tracks_def logger_error_def)

lemma tracks_lib_raised: "tracks is_raised (lib E c)"
  by (simp add: tracks_def lib_def split: option.splits)

lemma tracks_lib_essential: "\<not> diagnostic c \<Longrightarrow> tracks essential_raised (lib E c)"
  by (simp add: tracks_def lib_def split: option.splits)

lemma tracks_bindE: "tracks P m \<Longrightarrow> (\<And>x. tracks P (f x)) \<Longrightarrow> tracks P (bindE m f)"
  unfolding tracks_def bindE_def
  apply (intro allI)
  subgoal for h
    apply (cases "m h")
    subgoal for r n
      apply (cases r)
       apply (drule spec[of _ h], simp)
      subgoal for x
        apply (drule spec[of _ h])
        apply (cases "f x (h @ n)")
        apply (drule_tac x=x in meta_spec)
        apply (drule_tac x="h @ n" in spec)
        apply simp
        done
      done
    done
  done

lemma tracks_thenE: "tracks P m \<Longrightarrow> tracks P k \<Longrightarrow> tracks P (thenE m k)"
  by (simp add: thenE_def tracks_bindE)

lemma tracks_seqE: "list_all (tracks P) ms \<Longrightarrow> tracks P (seqE ms)"
  by (induction ms) (simp_all add: tracks_returnE tracks_thenE)


lemma tracks_finallyE: "tracks P body \<Longrightarrow> tracks P fin \<Longrightarrow> tracks P (finallyE body fin)"
  unfolding tracks_def finallyE_def
  apply (intro allI)
  subgoal for h
    apply (cases "body h")
    subgoal for r n
      apply (cases "fin (h @ n)")
      subgoal for r' n'
        apply (drule spec[of _ h])
        apply (drule spec[of _ "h @ n"])
        apply (cases r'; simp)
        done
      done
    done
  done

lemma tracks_if: "tracks P a \<Longrightarrow> tracks P b \<Longrightarrow> tracks P (if c then a else b)"
  by simp

lemma tracks_reraise:
  assumes "tracks P body" "\<And>e. \<not> P (Logged ERROR (m e))"
  shows "tracks P (try_except body (\<lambda>e. thenE (logger_error (m e)) (raiseE e)))"
  unfolding tracks_def
proof
  fix h
  obtain r n where b: "body h = (r, n)" by (cases "body h")
  from assms(1) b have t: "isl r = list_ex P n"
    by (auto simp: tracks_def dest: spec[of _ h])
  show "isl (fst (try_except body (\<lambda>e. thenE (logger_error (m e)) (raiseE e)) h)) =
        list_ex P (snd (try_except body (\<lambda>e. thenE (logger_error (m e)) (raiseE e)) h))"
    using t assms(2) b
    by (cases r) (simp_all add: try_except_def thenE_def bindE_def logger_error_def raiseE_def)
qed

lemma succeeds_then_True: "tracks P m \<Longrightarrow> succeeds P (thenE m (returnE True))"
  unfolding tracks_def succeeds_def thenE_def bindE_def returnE_def
  apply (intro allI)
  subgoal for h
    apply (drule spec[of _ h])
    apply (cases "m h")
    subgoal for r n by (cases r) simp_all
    done
  done

lemma succeeds_bindE: "tracks P m \<Longrightarrow> (\<And>x. succeeds P (f x)) \<Longrightarrow> succeeds P (bindE m f)"
  unfolding tracks_def succeeds_def bindE_def
  apply (intro allI)
  subgoal for h
    apply (drule spec[of _ h])
    apply (cases "m h")
    subgoal for r n
      apply (cases r)
       apply simp
      subgoal for x
        apply (drule_tac x=x in meta_spec)
        apply (drule_tac x="h @ n" in spec)
        apply (cases "f x (h @ n)")
        apply (auto split: sum.splits)
        done
      done
    done
  done

lemma succeeds_thenE: "tracks P m \<Longrightarrow> succeeds P k \<Longrightarrow> succeeds P (thenE m k)"
  by (simp add: thenE_def succeeds_bindE)

lemma verdict_try_except:
  assumes "succeeds P body" "\<And>e. \<not> P (Logged ERROR (m e))"
  shows "verdict P (try_except body (\<lambda>e. thenE (logger_error (m e)) (returnE False)))"
  unfolding verdict_def
proof
  fix h
  obtain r n where b: "body h = (r, n)" by (cases "body h")
  from assms(1) b have t: "case r of Inl e \<Rightarrow> list_ex P n | Inr b \<Rightarrow> b \<and> \<not> list_ex P n"
    by (auto simp: succeeds_def dest: spec[of _ h])
  show "fst (try_except body (\<lambda>e. thenE (logger_error (m e)) (returnE False)) h) =
        Inr (\<not> list_ex P (snd (try_except body (\<lambda>e. thenE (logger_error (m e)) (returnE False)) h)))"
    using t assms(2) b
    by (cases r) (simp_all add: try_except_def thenE_def bindE_def logger_error_def returnE_def)
qed

lemma tracks_make_input_data: "tracks is_raised (make_input_data E)"
  unfolding make_input_data_def
  by (intro tracks_thenE tracks_bindE tracks_if tracks_seqE tracks_lib_raised tracks_askE)
     (simp add: tracks_lib_raised)

lemma tracks_inference: "tracks is_raised (inference E)"
  unfolding inference_def
  by (intro tracks_seqE) (simp add: tracks_lib_raised)

lemma verdict_verify_tflite_model: "verdict is_raised (verify_tflite_model E self p)"
  unfolding verify_tflite_model_def
  by (intro verdict_try_except succeeds_then_True tracks_seqE)
     (simp_all add: tracks_lib_raised tracks_logger_info tracks_make_input_data tracks_inference)

lemma verdict_verify_onnx_model: "verdict is_raised (verify_onnx_model E self)"
  unfolding verify_onnx_model_def
  by (intro verdict_try_except succeeds_then_True tracks_seqE)
     (simp_all add: tracks_lib_raised tracks_logger_info)

lemma mute_returnE: "mute P (returnE x)"
  by (simp add: mute_def returnE_def)

lemma mute_askE: "mute P (askE f)"
  by (simp add: mute_def askE_def)




lemma mute_bindE: "mute P m \<Longrightarrow> (\<And>x. mute P (f x)) \<Longrightarrow> mute P (bindE m f)"
  unfolding mute_def bindE_def
  apply (intro allI)
  subgoal for h
    apply (drule spec[of _ h])
    apply (cases "m h")
    subgoal for r n
      apply (cases r)
       apply simp
      subgoal for x
        apply (drule_tac x=x in meta_spec)
        apply (drule_tac x="h @ n" in spec)
        apply (cases "f x (h @ n)")
        apply simp
        done
      done
    done
  done

lemma mute_thenE: "mute P m \<Longrightarrow> mute P k \<Longrightarrow> mute P (thenE m k)"
  by (simp add: thenE_def mute_bindE)

lemma mute_seqE: "list_all (mute P) ms \<Longrightarrow> mute P (seqE ms)"
  by (induction ms) (simp_all add: mute_returnE mute_thenE)

lemma mute_repeatE: "mute P body \<Longrightarrow> mute P (repeatE n body)"
  by (induction n) (simp_all add: mute_returnE mute_thenE)

lemma mute_if: "mute P a \<Longrightarrow> mute P b \<Longrightarrow> mute P (if c then a else b)"
  by simp

lemma mute_try_except: "mute P body \<Longrightarrow> (\<And>e. mute P (handler e)) \<Longrightarrow> mute P (try_except body handler)"
  unfolding mute_def try_except_def
  apply (intro allI)
  subgoal for h
    apply (drule spec[of _ h])
    apply (cases "body h")
    subgoal for r n
      apply (cases r)
      subgoal for e
        apply (drule_tac x=e in meta_spec)
        apply (drule_tac x="h @ n" in spec)
        apply (cases "handler e (h @ n)")
        apply simp
        done
      apply simp
      done
    done
  done

lemma mute_finallyE: "mute P body \<Longrightarrow> mute P fin \<Longrightarrow> mute P (finallyE body fin)"
  unfolding mute_def finallyE_def
  apply (intro allI)
  subgoal for h
    apply (drule spec[of _ h])
    apply (cases "body h")
    subgoal for r n
      apply (drule spec[of _ "h @ n"])
      apply (cases "fin (h @ n)")
      subgoal for r' n' by (cases r') simp_all
      done
    done
  done

lemma total_try_except: "(\<And>e. total (handler e)) \<Longrightarrow> total (try_except body handler)"
  unfolding total_def try_except_def
  apply (intro allI)
  subgoal for h
    apply (cases "body h")
    subgoal for r n
      apply (cases r)
      subgoal for e
        apply (drule_tac x=e in meta_spec)
        apply (drule_tac x="h @ n" in spec)
        apply (cases "handler e (h @ n)")
        apply simp
        done
      apply simp
      done
    done
  done

lemma total_logger_error: "total (logger_error m)"
  by (simp add: total_def logger_error_def)

lemma total_log_return: "total (thenE (logger_error m) (returnE x))"
  by (simp add: total_def logger_error_def thenE_def bindE_def returnE_def)

lemma tracks_mute_total: "mute P p \<Longrightarrow> total p \<Longrightarrow> tracks P p"
  by (simp add: mute_def total_def tracks_def)

lemma tracks_discard: "mute P p \<Longrightarrow> total p \<Longrightarrow> tracks P (bindE p (\<lambda>_. returnE ()))"
  unfolding mute_def total_def tracks_def bindE_def returnE_def
  apply (intro allI)
  subgoal for h
    apply (drule spec[of _ h])+
    apply (cases "p h")
    subgoal for r n by (cases r) simp_all
    done
  done

lemma ignores_diagnostics_essential_raised: "ignores_diagnostics essential_raised"
  unfolding ignores_diagnostics_def
  apply (intro conjI allI impI)
  subgoal for c r by (cases r) simp_all
  subgoal by simp
  done

lemma ignores_diagnostics_performs:
  "(\<And>c. diagnostic c \<Longrightarrow> \<not> C c) \<Longrightarrow> ignores_diagnostics (performs C)"
  by (simp add: ignores_diagnostics_def)

lemma ignores_calls_diagnostics: "ignores_calls P \<Longrightarrow> ignores_diagnostics P"
  by (simp add: ignores_calls_def ignores_diagnostics_def)

lemma mute_lib_ignored: "ignores_diagnostics P \<Longrightarrow> diagnostic c \<Longrightarrow> mute P (lib E c)"
  by (simp add: ignores_diagnostics_def mute_def lib_def split: option.splits)

lemma mute_lib_call: "ignores_calls P \<Longrightarrow> mute P (lib E c)"
  by (simp add: ignores_calls_def mute_def lib_def split: option.splits)

lemma mute_info_ignored: "ignores_diagnostics P \<Longrightarrow> \<not> step_marker m \<Longrightarrow> mute P (logger_info m)"
  by (simp add: ignores_diagnostics_def mute_def logger_info_def)

lemma mute_error_ignored: "ignores_diagnostics P \<Longrightarrow> \<not> step_marker m \<Longrightarrow> mute P (logger_error m)"
  by (simp add: ignores_diagnostics_def mute_def logger_error_def)

lemma mute_make_input_data: "ignores_diagnostics P \<Longrightarrow> mute P (make_input_data E)"
  unfolding make_input_data_def
  by (intro mute_thenE mute_bindE mute_if mute_seqE mute_askE)
     (simp_all add: mute_lib_ignored)

lemma mute_inference: "ignores_diagnostics P \<Longrightarrow> mute P (inference E)"
  unfolding inference_def
  by (intro mute_seqE) (simp add: mute_lib_ignored)

lemma mute_time_time: "ignores_diagnostics P \<Longrightarrow> mute P (time_time E)"
  unfolding time_time_def
  by (intro mute_thenE mute_askE) (simp add: mute_lib_ignored)

lemma mute_timed_loop: "ignores_diagnostics P \<Longrightarrow> mute P (timed_loop E n acc)"
  by (induction n arbitrary: acc)
     (simp_all add: mute_returnE mute_bindE mute_thenE mute_time_time mute_inference)

lemma mute_verify_onnx_model: "ignores_diagnostics P \<Longrightarrow> mute P (verify_onnx_model E self)"
  unfolding verify_onnx_model_def
  by (intro mute_try_except mute_thenE mute_seqE mute_returnE)
     (simp_all add: mute_lib_ignored mute_info_ignored mute_error_ignored)

lemma mute_verify_tflite_model: "ignores_diagnostics P \<Longrightarrow> mute P (verify_tflite_model E self p)"
  unfolding verify_tflite_model_def
  by (intro mute_try_except mute_thenE mute_seqE mute_returnE)
     (simp_all add: mute_lib_ignored mute_info_ignored mute_error_ignored
        mute_make_input_data mute_inference)

lemma mute_benchmark_model: "ignores_diagnostics P \<Longrightarrow> mute P (benchmark_model E self p n)"
  unfolding benchmark_model_def Let_def
  by (intro mute_try_except mute_thenE mute_bindE mute_seqE mute_timed_loop mute_askE)
     (simp_all add: mute_lib_ignored mute_info_ignored mute_error_ignored
        mute_make_input_data mute_inference mute_repeatE)

lemma total_verify_onnx_model: "total (verify_onnx_model E self)"
  unfolding verify_onnx_model_def by (intro total_try_except total_log_return)

lemma total_verify_tflite_model: "total (verify_tflite_model E self p)"
  unfolding verify_tflite_model_def by (intro total_try_except total_log_return)

lemma total_benchmark_model: "total (benchmark_model E self p n)"
  unfolding benchmark_model_def by (intro total_try_except total_logger_error)

lemma tracks_path_exists: "tracks essential_raised (path_exists E p)"
  unfolding path_exists_def
  by (intro tracks_thenE tracks_askE tracks_lib_essential) simp

lemma tracks_with_open:
  "tracks essential_raised body \<Longrightarrow> tracks essential_raised (with_open E p mode body)"
  unfolding with_open_def
  by (intro tracks_thenE tracks_finallyE tracks_lib_essential) simp_all

lemma tracks_init: "tracks essential_raised (init E mp od' mn)"
  unfolding init_def
  by (intro tracks_thenE tracks_returnE tracks_lib_essential) simp

lemma tracks_load_yolo_model: "tracks essential_raised (load_yolo_model E self)"
  unfolding load_yolo_model_def
  by (intro tracks_reraise tracks_thenE tracks_seqE tracks_returnE)
     (simp_all add: tracks_lib_essential tracks_logger_info)

lemma tracks_create_model_metadata: "tracks essential_raised (create_model_metadata E self)"
  unfolding create_model_metadata_def
  by (intro tracks_seqE)
     (simp add: tracks_with_open tracks_lib_essential tracks_logger_info)

lemma verdict_export_to_onnx: "verdict essential_raised (export_to_onnx E self model)"
  unfolding export_to_onnx_def Let_def
  by (intro verdict_try_except succeeds_thenE succeeds_bindE succeeds_then_True
        tracks_seqE tracks_path_exists)
     (simp_all add: tracks_lib_essential tracks_logger_info tracks_returnE tracks_discard
        mute_verify_onnx_model total_verify_onnx_model ignores_diagnostics_essential_raised)

lemma verdict_convert_to_tflite: "verdict essential_raised (convert_to_tflite E self q)"
proof -
  obtain output_path converter where cfg: "configure self q = (output_path, converter)"
    by (cases "configure self q")
  show ?thesis
    unfolding convert_to_tflite_def cfg prod.case
    by (intro verdict_try_except succeeds_then_True tracks_seqE)
       (simp_all add: tracks_lib_essential tracks_logger_info tracks_with_open tracks_discard
          mute_verify_tflite_model total_verify_tflite_model
          tracks_mute_total mute_benchmark_model total_benchmark_model
          ignores_diagnostics_essential_raised)
qed

lemma variants_loop_result:
  "fst (variants_loop E self vs success h) =
     Inr (success \<and> \<not> list_ex essential_raised (snd (variants_loop E self vs success h)))"
proof (induction vs arbitrary: success h)
  case Nil
  show ?case by (simp add: returnE_def)
next
  case (Cons v vs)
  obtain q d where v: "v = (q, d)" by (cases v)
  let ?h1 = "h @ [Logged INFO (Converting_to d)]"
  obtain n where c: "convert_to_tflite E self q ?h1 = (Inr (\<not> list_ex essential_raised n), n)"
    using verdict_convert_to_tflite[of E self q]
    by (metis verdict_def prod.collapse)
  show ?case
  proof (cases "list_ex essential_raised n")
    case True
    let ?h2 = "?h1 @ n @ [Logged ERROR (Failed_to_convert_to d)]"
    obtain r n' where l: "variants_loop E self vs False ?h2 = (r, n')"
      by (cases "variants_loop E self vs False ?h2")
    from Cons.IH[of False ?h2] l have "r = Inr False" by simp
    with True c l show ?thesis
      by (simp add: v thenE_def bindE_def logger_info_def logger_error_def)
  next
    case False
    let ?h2 = "?h1 @ n @ [Logged INFO (Conversion_completed d)]"
    obtain r n' where l: "variants_loop E self vs success ?h2 = (r, n')"
      by (cases "variants_loop E self vs success ?h2")
    from Cons.IH[of success ?h2] l
    have "r = Inr (success \<and> \<not> list_ex essential_raised n')" by simp
    with False c l show ?thesis
      by (simp add: v thenE_def bindE_def logger_info_def logger_error_def)
  qed
qed

lemma verdict_variants_loop: "verdict essential_raised (variants_loop E self vs True)"
  using variants_loop_result[of E self vs True] by (simp add: verdict_def)

lemma judged_then_tracks:
  "verdict P m \<Longrightarrow> tracks P k \<Longrightarrow> judged P (bindE m (\<lambda>b. thenE k (returnE b)))"
  unfolding verdict_def tracks_def judged_def thenE_def bindE_def returnE_def
  apply (intro allI)
  subgoal for h
    apply (drule spec[of _ h])
    apply (cases "m h")
    subgoal for r n
      apply (drule spec[of _ "h @ n"])
      apply (cases "k (h @ n)")
      subgoal for r' n' by (cases r') auto
      done
    done
  done

lemma judged_after_verdict:
  assumes m: "verdict P m" and k: "judged P (f True)" and f: "f False = returnE False"
  shows "judged P (bindE m f)"
  unfolding judged_def
proof
  fix h
  obtain n where mh: "m h = (Inr (\<not> list_ex P n), n)"
    using m by (metis verdict_def prod.collapse)
  show "case bindE m f h of (Inl e, n) \<Rightarrow> list_ex P n | (Inr b, n) \<Rightarrow> b = (\<not> list_ex P n)"
  proof (cases "list_ex P n")
    case True
    with mh f show ?thesis by (simp add: bindE_def returnE_def)
  next
    case False
    obtain r n' where fh: "f True (h @ n) = (r, n')" by (cases "f True (h @ n)")
    from k fh have "case r of Inl e \<Rightarrow> list_ex P n' | Inr b \<Rightarrow> b = (\<not> list_ex P n')"
      by (auto simp: judged_def dest: spec[of _ "h @ n"])
    with False mh fh show ?thesis by (cases r) (simp_all add: bindE_def)
  qed
qed

lemma judged_bindE: "tracks P m \<Longrightarrow> (\<And>x. judged P (f x)) \<Longrightarrow> judged P (bindE m f)"
  unfolding tracks_def judged_def bindE_def
  apply (intro allI)
  subgoal for h
    apply (drule spec[of _ h])
    apply (cases "m h")
    subgoal for r n
      apply (cases r)
       apply simp
      subgoal for x
        apply (drule_tac x=x in meta_spec)
        apply (drule_tac x="h @ n" in spec)
        apply (cases "f x (h @ n)")
        apply (auto split: sum.splits)
        done
      done
    done
  done

lemma judged_convert_all_variants: "judged essential_raised (convert_all_variants E self)"
  unfolding convert_all_variants_def
  apply (rule judged_bindE[OF tracks_load_yolo_model])
  apply (rule judged_after_verdict[OF verdict_export_to_onnx])
   apply (simp add: judged_then_tracks verdict_variants_loop tracks_create_model_metadata)
  apply simp
  done

lemma judged_conversion: "judged essential_raised (conversion E self q)"
proof (cases "q = ''all''")
  case True
  then show ?thesis by (simp add: conversion_def judged_convert_all_variants)
next
  case False
  then show ?thesis
    unfolding conversion_def
    apply (simp del: One_nat_def)
    apply (rule judged_bindE[OF tracks_load_yolo_model])
    apply (rule judged_after_verdict[OF verdict_export_to_onnx])
     apply (simp add: judged_then_tracks verdict_convert_to_tflite tracks_create_model_metadata)
    apply simp
    done
qed

lemma bindE_assoc: "bindE (bindE m f) g = bindE m (\<lambda>x. bindE (f x) g)"
proof
  fix h
  obtain r n where m: "m h = (r, n)" by (cases "m h")
  show "bindE (bindE m f) g h = bindE m (\<lambda>x. bindE (f x) g) h"
  proof (cases r)
    case (Inl e)
    with m show ?thesis by (simp add: bindE_def)
  next
    case (Inr x)
    obtain r' n' where f: "f x (h @ n) = (r', n')" by (cases "f x (h @ n)")
    show ?thesis
    proof (cases r')
      case (Inl e)
      with m Inr f show ?thesis by (simp add: bindE_def)
    next
      case (Inr y)
      obtain r'' n'' where g: "g y (h @ n @ n') = (r'', n'')" by (cases "g y (h @ n @ n')")
      with m \<open>r = Inr x\<close> f Inr show ?thesis by (simp add: bindE_def)
    qed
  qed
qed

lemma bindE_returnE: "bindE (returnE x) f = f x"
  by (rule ext) (simp add: bindE_def returnE_def)

lemma variants_loop_Cons:
  "variants_loop E self ((q, d) # vs) success =
     bindE (variant E self q d) (\<lambda>ok. variants_loop E self vs (success \<and> ok))"
proof -
  have "(\<lambda>ok. if \<not> ok
          then thenE (logger_error (Failed_to_convert_to d)) (variants_loop E self vs False)
          else thenE (logger_info (Conversion_completed d)) (variants_loop E self vs success)) =
        (\<lambda>ok. bindE (thenE (if ok then logger_info (Conversion_completed d)
                 else logger_error (Failed_to_convert_to d))
            (returnE ok)) (\<lambda>ok. variants_loop E self vs (success \<and> ok)))"
    by (rule ext) (simp add: thenE_def bindE_assoc bindE_returnE)
  then show ?thesis
    by (simp add: variant_def thenE_def bindE_assoc)
qed

lemma variants_loop_variants:
  "variants_loop E self variants True =
     bindE (variant E self ''none'' ''FP32'') (\<lambda>fp32.
       bindE (variant E self ''fp16'' ''FP16'') (\<lambda>fp16.
         bindE (variant E self ''int8'' ''INT8'') (\<lambda>int8.
           returnE (fp32 \<and> fp16 \<and> int8))))"
  by (simp add: variants_def variants_loop_Cons del: variants_loop.simps(2))

subsection \<open>Running a program step by step\<close>

lemma fst_bindE:
  "fst (bindE m k h) = (case fst (m h) of Inl e \<Rightarrow> Inl e | Inr x \<Rightarrow> fst (k x (h @ snd (m h))))"
  by (simp add: bindE_def split: prod.splits sum.splits)

lemma snd_bindE:
  "snd (bindE m k h) =
     snd (m h) @ (case fst (m h) of Inl e \<Rightarrow> [] | Inr x \<Rightarrow> snd (k x (h @ snd (m h))))"
  by (simp add: bindE_def split: prod.splits sum.splits)

lemma fst_try_except:
  "fst (try_except body handler h) =
     (case fst (body h) of Inl e \<Rightarrow> fst (handler e (h @ snd (body h))) | Inr x \<Rightarrow> Inr x)"
  by (simp add: try_except_def split: prod.splits sum.splits)

lemma snd_try_except:
  "snd (try_except body handler h) =
     snd (body h) @
     (case fst (body h) of Inl e \<Rightarrow> snd (handler e (h @ snd (body h))) | Inr x \<Rightarrow> [])"
  by (simp add: try_except_def split: prod.splits sum.splits)

lemma fst_lib:
  "fst (lib E c h) = (case raises E h c of Some m \<Rightarrow> Inl (Exception m) | None \<Rightarrow> Inr ())"
  by (simp add: lib_def split: option.splits)

lemma snd_lib:
  "snd (lib E c h) =
     [Called c (case raises E h c of Some m \<Rightarrow> Raised m | None \<Rightarrow> Returned)]"
  by (simp add: lib_def split: option.splits)

lemma fst_snd_logger:
  "fst (logger_info m h) = Inr ()" "snd (logger_info m h) = [Logged INFO m]"
  "fst (logger_error m h) = Inr ()" "snd (logger_error m h) = [Logged ERROR m]"
  by (simp_all add: logger_info_def logger_error_def)

lemma fst_snd_returnE: "fst (returnE x h) = Inr x" "snd (returnE x h) = []"
  by (simp_all add: returnE_def)

lemma fst_snd_askE: "fst (askE f h) = Inr (f h)" "snd (askE f h) = []"
  by (simp_all add: askE_def)

lemmas run_simps = fst_bindE snd_bindE fst_try_except snd_try_except fst_lib snd_lib
  fst_snd_logger fst_snd_returnE fst_snd_askE thenE_def

lemma init_result:
  "fst (init E mp od' mn h) = Inr self \<Longrightarrow>
   self = \<lparr>model_path = Path mp, output_dir = Path od', model_name = mn, input_size = 640,
           onnx_path = Div (Path od') (mn @ ''.onnx''),
           tflite_path = Div (Path od') (mn @ ''.tflite''),
           tflite_fp16_path = Div (Path od') (mn @ ''_fp16.tflite''),
           tflite_int8_path = Div (Path od') (mn @ ''_int8.tflite'')\<rparr>"
  by (auto simp: init_def thenE_def bindE_def lib_def returnE_def split: option.splits)

lemma create_model_metadata_run:
  assumes "\<not> list_ex is_raised (snd (create_model_metadata E self h))"
  shows "create_model_metadata E self h =
     (Inr (),
      [Called (Open_file (metadata_path self) ''w'') Returned,
       Called (Json_dump (metadata self) 2 (metadata_path self)) Returned,
       Called (Close_file (metadata_path self)) Returned,
       Logged INFO (Model_metadata_saved_to (metadata_path self))])"
  using assms
  by (simp add: create_model_metadata_def with_open_def thenE_def bindE_def finallyE_def
      lib_def logger_info_def returnE_def split: option.splits)

lemma renames_append: "renames (xs @ ys) = renames xs @ renames ys"
  by (induction xs rule: renames.induct) simp_all

lemma renames_mute: "\<not> list_ex (performs is_rename) n \<Longrightarrow> renames n = []"
  by (induction n rule: renames.induct) simp_all

lemma renames_verify_onnx_model: "renames (snd (verify_onnx_model E self h)) = []"
proof -
  have "ignores_diagnostics (performs is_rename)"
    by (rule ignores_diagnostics_performs) (auto elim: diagnostic.elims)
  then show ?thesis
    using mute_verify_onnx_model[of "performs is_rename" E self]
    by (simp add: mute_def renames_mute)
qed






subsection \<open>The steps a run attempts\<close>

lemma attempts_append: "attempts (xs @ ys) = attempts xs @ attempts ys"
  by (induction xs rule: attempts.induct) simp_all

lemma attempts_mute: "\<not> list_ex is_attempt n \<Longrightarrow> attempts n = []"
  by (induction n rule: attempts.induct) simp_all

lemma ignores_calls_is_attempt: "ignores_calls is_attempt"
  by (simp add: ignores_calls_def)

lemma mute_raiseE: "mute P (raiseE e)"
  by (simp add: mute_def raiseE_def)

lemma thenE_assoc: "thenE (thenE a b) c = thenE a (thenE b c)"
  by (simp add: thenE_def bindE_assoc)

lemma mute_info_call: "ignores_calls P \<Longrightarrow> \<not> step_marker m \<Longrightarrow> mute P (logger_info m)"
  by (simp add: ignores_calls_diagnostics mute_info_ignored)

lemma mute_error_call: "ignores_calls P \<Longrightarrow> \<not> step_marker m \<Longrightarrow> mute P (logger_error m)"
  by (simp add: ignores_calls_diagnostics mute_error_ignored)

lemma mute_path_exists: "ignores_calls P \<Longrightarrow> mute P (path_exists E p)"
  unfolding path_exists_def
  by (intro mute_thenE mute_askE mute_lib_call)

lemma mute_with_open_call: "ignores_calls P \<Longrightarrow> mute P body \<Longrightarrow> mute P (with_open E p mode body)"
  unfolding with_open_def
  by (intro mute_thenE mute_finallyE mute_lib_call)

lemma mute_load_yolo_model: "ignores_calls P \<Longrightarrow> mute P (load_yolo_model E self)"
  unfolding load_yolo_model_def
  by (intro mute_try_except mute_thenE mute_seqE mute_returnE mute_raiseE)
     (simp_all add: mute_lib_call mute_info_call mute_error_call)

lemma mute_create_model_metadata: "ignores_calls P \<Longrightarrow> mute P (create_model_metadata E self)"
  unfolding create_model_metadata_def
  by (intro mute_seqE) (simp add: mute_with_open_call mute_lib_call mute_info_call)

lemma attempts_marked_step:
  assumes "mute is_attempt body" "\<And>e. mute is_attempt (handler e)"
  shows "attempts (snd (try_except (thenE (logger_info m) body) handler h)) =
         attempts [Logged INFO m]"
proof -
  have b: "attempts (snd (body h')) = []" for h'
    using assms(1) by (simp add: mute_def attempts_mute)
  have k: "attempts (snd (handler e h')) = []" for e h'
    using assms(2)[of e] by (simp add: mute_def attempts_mute)
  let ?h = "h @ [Logged INFO m]"
  let ?tail = "snd (body ?h) @
     (case fst (body ?h) of Inl e \<Rightarrow> snd (handler e (?h @ snd (body ?h))) | Inr x \<Rightarrow> [])"
  have "attempts (snd (try_except (thenE (logger_info m) body) handler h)) =
        attempts ([Logged INFO m] @ ?tail)"
    by (simp add: run_simps split: sum.splits)
  also have "\<dots> = attempts [Logged INFO m] @ attempts ?tail"
    by (rule attempts_append)
  also have "attempts ?tail = []"
    by (simp add: attempts_append b k split: sum.splits)
  finally show ?thesis by simp
qed

lemma attempts_export_to_onnx:
  "attempts (snd (export_to_onnx E self model h)) = [Export_step]"
proof -
  let ?rest = "thenE
     (seqE
        [lib E (Model_export model
           \<lparr>format = ''onnx'', imgsz = input_size self, dynamic = False,
            simplify = True, opset = 11\<rparr>),
         lib E (Path_with_suffix (model_path self) ''.onnx'')])
     (let generated_onnx = WithSuffix (model_path self) ''.onnx'' in
      bindE (path_exists E generated_onnx) (\<lambda>ex.
        thenE
          (seqE
             [if ex then lib E (Path_rename generated_onnx (onnx_path self))
              else returnE (),
              bindE (verify_onnx_model E self) (\<lambda>_. returnE ()),
              logger_info ONNX_export_completed])
          (returnE True)))"
  note c = ignores_calls_is_attempt
  note d = ignores_calls_diagnostics[OF c]
  have eq: "export_to_onnx E self model =
        try_except (thenE (logger_info (Exporting_to_ONNX (onnx_path self))) ?rest)
          (\<lambda>e. thenE (logger_error (ONNX_export_failed e)) (returnE False))"
    unfolding export_to_onnx_def by (simp add: thenE_assoc)
  have "mute is_attempt ?rest"
    unfolding Let_def
    by (intro mute_thenE mute_bindE mute_seqE mute_returnE mute_path_exists c)
       (simp_all add: c d mute_lib_call mute_info_call mute_bindE mute_returnE
          mute_verify_onnx_model)
  moreover have "mute is_attempt (thenE (logger_error (ONNX_export_failed e)) (returnE False))" for e
    by (intro mute_thenE mute_returnE mute_error_call c) simp
  ultimately show ?thesis
    unfolding eq by (simp add: attempts_marked_step)
qed

lemma attempts_convert_to_tflite:
  "attempts (snd (convert_to_tflite E self q h)) = [Convert_step q]"
proof -
  obtain output_path converter where cfg: "configure self q = (output_path, converter)"
    by (cases "configure self q")
  let ?rest = "thenE
     (seqE
        [lib E (From_onnx (onnx_path self)),
         lib E (Convert converter),
         with_open E output_path ''wb'' (lib E (Write_file output_path)),
         logger_info (TFLite_model_saved_to output_path),
         bindE (verify_tflite_model E self output_path) (\<lambda>_. returnE ()),
         benchmark_model E self output_path num_runs_default])
     (returnE True)"
  note c = ignores_calls_is_attempt
  note d = ignores_calls_diagnostics[OF c]
  have eq: "convert_to_tflite E self q =
        try_except (thenE (logger_info (Converting_to_TFLite q)) ?rest)
          (\<lambda>e. thenE (logger_error (TFLite_conversion_failed e)) (returnE False))"
    unfolding convert_to_tflite_def cfg prod.case by (simp add: thenE_assoc)
  have "mute is_attempt ?rest"
    by (intro mute_thenE mute_seqE mute_returnE)
       (simp add: c d mute_lib_call mute_info_call mute_with_open_call mute_bindE mute_returnE
          mute_verify_tflite_model mute_benchmark_model)
  moreover have "mute is_attempt (thenE (logger_error (TFLite_conversion_failed e)) (returnE False))" for e
    by (intro mute_thenE mute_returnE mute_error_call c) simp
  ultimately show ?thesis
    unfolding eq by (simp add: attempts_marked_step)
qed

lemma attempts_variants_loop:
  "attempts (snd (variants_loop E self vs success h)) = map (\<lambda>v. Convert_step (fst v)) vs"
proof (induction vs arbitrary: success h)
  case Nil
  show ?case by (simp add: returnE_def)
next
  case (Cons v vs)
  obtain q d where v: "v = (q, d)" by (cases v)
  have t: "fst (convert_to_tflite E self q h') =
           Inr (\<not> list_ex essential_raised (snd (convert_to_tflite E self q h')))" for h'
    using verdict_convert_to_tflite[of E self q] by (simp add: verdict_def)
  show ?case
    by (simp add: v run_simps attempts_append attempts_convert_to_tflite t Cons.IH)
qed

subsection \<open>A benchmark in which nothing raises\<close>





























section \<open>The claims\<close>

subsection \<open>Diagnostics and the aggregate result\<close>

text \<open>
  C1. Running all variants returns the conjunction of the three convert results: the
  method is the same program as \<open>all_variants_and\<close>. The validation of a converted
  artifact never raises and returns \<open>False\<close> exactly when one of its library calls raised;
  the benchmark never raises; and what a convert step returns is \<open>True\<close> exactly when no
  library call outside validation and benchmark raised, so a failure inside them changes
  neither this result nor their conjunction.
\<close>

theorem aggregate_success_is_conjunction:
  "convert_all_variants E self = all_variants_and E self
   \<and> fst (verify_tflite_model E self p h) =
       Inr (\<not> list_ex is_raised (snd (verify_tflite_model E self p h)))
   \<and> fst (benchmark_model E self p n h) = Inr ()
   \<and> fst (convert_to_tflite E self q h) =
       Inr (\<not> list_ex essential_raised (snd (convert_to_tflite E self q h)))"
proof (intro conjI)
  show "convert_all_variants E self = all_variants_and E self"
    unfolding convert_all_variants_def all_variants_and_def variants_loop_variants
    by (simp add: bindE_assoc bindE_returnE cong: if_cong)
  show "fst (verify_tflite_model E self p h) =
        Inr (\<not> list_ex is_raised (snd (verify_tflite_model E self p h)))"
    using verdict_verify_tflite_model[of E self p] by (simp add: verdict_def)
  show "fst (benchmark_model E self p n h) = Inr ()"
    using total_benchmark_model[of E self p n]
    by (cases "fst (benchmark_model E self p n h)") (auto simp: total_def dest: spec[of _ h])
  show "fst (convert_to_tflite E self q h) =
        Inr (\<not> list_ex essential_raised (snd (convert_to_tflite E self q h)))"
    using verdict_convert_to_tflite[of E self q] by (simp add: verdict_def)
qed

text \<open>
  With an artifact that the interpreter cannot load, every validation returns \<open>False\<close>
  and all variants still succeed.
\<close>

theorem aggregate_success_corrupt_artifact:
  "fst (verify_tflite_model corrupt_artifact golf (tflite_path golf) []) = Inr False
   \<and> fst (convert_all_variants corrupt_artifact golf []) = Inr True"
proof -
  have "list_ex is_raised (snd (verify_tflite_model corrupt_artifact golf (tflite_path golf) []))"
    by code_simp
  moreover have "fst (all_variants_and corrupt_artifact golf []) = Inr True"
    by code_simp
  ultimately show ?thesis
    using aggregate_success_is_conjunction[of corrupt_artifact golf "tflite_path golf" "[]"]
    by simp
qed

subsection \<open>A missing source model\<close>

text \<open>
  C2. When the source path does not exist (the existence test returns \<open>False\<close>), the run
  ends with exit status 1 after exactly two events, the existence test and the error log
  line: no call that writes to the filesystem and no export call of the library is made.
\<close>

theorem missing_source_exits_before_writes:
  assumes "raises E h (Path_exists (Path (arg_model_path a))) = None"
    and "\<not> exists_result E (h @ [Called (Path_exists (Path (arg_model_path a))) Returned])
            (Path (arg_model_path a))"
  shows "exit_status E a h = 1
    \<and> snd (main E a h) =
        [Called (Path_exists (Path (arg_model_path a))) Returned,
         Logged ERROR (Model_file_not_found (arg_model_path a))]
    \<and> \<not> list_ex (performs filesystem_write) (snd (main E a h))
    \<and> \<not> list_ex (performs library_export) (snd (main E a h))"
proof -
  have "main E a h =
        (Inr 1, [Called (Path_exists (Path (arg_model_path a))) Returned,
                 Logged ERROR (Model_file_not_found (arg_model_path a))])"
    using assms
    by (simp add: main_def path_exists_def thenE_def bindE_def lib_def askE_def
        logger_error_def returnE_def)
  then show ?thesis by (simp add: exit_status_def)
qed

theorem missing_source_example:
  "exit_status missing_source (golf_args ''all'') [] = 1
   \<and> \<not> list_ex (performs filesystem_write) (snd (main missing_source (golf_args ''all'') []))
   \<and> \<not> list_ex (performs library_export) (snd (main missing_source (golf_args ''all'') []))"
proof -
  have "raises missing_source [] (Path_exists (Path (arg_model_path (golf_args ''all'')))) = None"
    by code_simp
  moreover have "\<not> exists_result missing_source
            ([] @ [Called (Path_exists (Path (arg_model_path (golf_args ''all'')))) Returned])
            (Path (arg_model_path (golf_args ''all'')))"
    by code_simp
  ultimately show ?thesis
    using missing_source_exits_before_writes[of missing_source "[]" "golf_args ''all''"]
    by simp
qed

subsection \<open>The order of the steps\<close>

text \<open>
  C3, as stated, fails: when the source model cannot be loaded, the exception leaves the
  method before the export step, which is then attempted zero times.
\<close>

theorem export_not_attempted_when_load_fails:
  "attempts (snd (convert_all_variants load_fails golf [])) = []
   \<and> \<not> list_ex (performs library_export) (snd (convert_all_variants load_fails golf []))
   \<and> fst (convert_all_variants load_fails golf []) = Inl (Exception ''unreadable'')"
  by code_simp

text \<open>
  C3, amended. When loading the source model succeeds, running all variants attempts the
  export step exactly once and first; when the export step returns success it then
  attempts the convert step exactly three times, for \<^verbatim>\<open>none\<close>, \<^verbatim>\<open>fp16\<close> and \<^verbatim>\<open>int8\<close> in this
  order; and when the export step returns failure it attempts no convert step and returns
  failure. When loading raises, the same exception leaves the method and neither step is
  attempted.
\<close>

theorem all_variants_attempts:
  "(fst (load_yolo_model E self h) = Inr model \<longrightarrow>
      attempts (snd (convert_all_variants E self h)) =
        Export_step #
        (if fst (export_to_onnx E self model (h @ snd (load_yolo_model E self h))) = Inr True
         then [Convert_step ''none'', Convert_step ''fp16'', Convert_step ''int8''] else [])
      \<and> (fst (export_to_onnx E self model (h @ snd (load_yolo_model E self h))) = Inr False \<longrightarrow>
          fst (convert_all_variants E self h) = Inr False))
   \<and> (fst (load_yolo_model E self h) = Inl e \<longrightarrow>
        attempts (snd (convert_all_variants E self h)) = []
        \<and> fst (convert_all_variants E self h) = Inl e)"
proof -
  let ?h1 = "h @ snd (load_yolo_model E self h)"
  note c = ignores_calls_is_attempt
  have l: "attempts (snd (load_yolo_model E self h)) = []"
    using mute_load_yolo_model[OF c, of E self] by (simp add: mute_def attempts_mute)
  have m: "attempts (snd (create_model_metadata E self h')) = []" for h'
    using mute_create_model_metadata[OF c, of E self] by (simp add: mute_def attempts_mute)
  obtain b where x: "fst (export_to_onnx E self model ?h1) = Inr b"
    using verdict_export_to_onnx[of E self model] by (simp add: verdict_def)
  have v: "fst (variants_loop E self variants True h') =
      Inr (\<not> list_ex essential_raised (snd (variants_loop E self variants True h')))" for h'
    using verdict_variants_loop[of E self variants] by (simp add: verdict_def)
  have vs: "map (\<lambda>v. Convert_step (fst v)) variants =
      [Convert_step ''none'', Convert_step ''fp16'', Convert_step ''int8'']"
    by (simp add: variants_def)
  have loaded: "attempts (snd (convert_all_variants E self h)) =
        Export_step #
        (if fst (export_to_onnx E self model ?h1) = Inr True
         then [Convert_step ''none'', Convert_step ''fp16'', Convert_step ''int8''] else [])
      \<and> (fst (export_to_onnx E self model ?h1) = Inr False \<longrightarrow>
          fst (convert_all_variants E self h) = Inr False)"
    if "fst (load_yolo_model E self h) = Inr model"
    using that x
    by (cases b)
       (simp_all add: convert_all_variants_def run_simps attempts_append l m v vs
          attempts_export_to_onnx attempts_variants_loop split: sum.splits)
  have failed: "attempts (snd (convert_all_variants E self h)) = []
        \<and> fst (convert_all_variants E self h) = Inl e"
    if "fst (load_yolo_model E self h) = Inl e"
    using that by (simp add: convert_all_variants_def run_simps l)
  from loaded failed show ?thesis by blast
qed

theorem all_variants_attempts_examples:
  "attempts (snd (convert_all_variants corrupt_artifact golf [])) =
     [Export_step, Convert_step ''none'', Convert_step ''fp16'', Convert_step ''int8'']
   \<and> attempts (snd (convert_all_variants export_fails golf [])) = [Export_step]
   \<and> fst (convert_all_variants export_fails golf []) = Inr False
   \<and> attempts (snd (convert_all_variants load_fails golf [])) = []
   \<and> fst (convert_all_variants load_fails golf []) = Inl (Exception ''unreadable'')"
proof -
  let ?m = "YOLO (Path ''best.pt'')"
  have "fst (load_yolo_model corrupt_artifact golf []) = Inr ?m"
    by code_simp
  moreover have "fst (export_to_onnx corrupt_artifact golf ?m
      ([] @ snd (load_yolo_model corrupt_artifact golf []))) = Inr True"
    by code_simp
  moreover have "fst (load_yolo_model export_fails golf []) = Inr ?m"
    by code_simp
  moreover have "fst (export_to_onnx export_fails golf ?m
      ([] @ snd (load_yolo_model export_fails golf []))) = Inr False"
    by code_simp
  moreover have "fst (load_yolo_model load_fails golf []) = Inl (Exception ''unreadable'')"
    by code_simp
  ultimately show ?thesis
    using all_variants_attempts[of corrupt_artifact golf "[]" ?m]
      all_variants_attempts[of export_fails golf "[]" ?m]
      all_variants_attempts[of load_fails golf "[]" _ "Exception ''unreadable''"]
    by simp
qed

subsection \<open>The calibration data\<close>



subsection \<open>The benchmark\<close>



subsection \<open>The metadata sidecar\<close>

text \<open>
  C6. For a converter object made by \<^verbatim>\<open>__init__\<close> with output directory \<open>od'\<close> and name
  \<open>mn\<close>: when no call of the metadata step raises, the step opens
  \<^verbatim>\<open><od'>/<mn>_metadata.json\<close> for writing, dumps the metadata record into it and closes
  it; and the record dumped has the classes \<^verbatim>\<open>["ball", "club_head"]\<close>, the confidence
  threshold 0.25, the suppression threshold 0.45 and the input shape \<^verbatim>\<open>[1, 640, 640, 3]\<close>.
  The record handed to \<^verbatim>\<open>json.dump\<close> is what parsing the file gives back.
\<close>

theorem metadata_sidecar_contents:
  assumes "fst (init E mp od' mn h0) = Inr self"
    and "\<not> list_ex is_raised (snd (create_model_metadata E self h))"
  shows "snd (create_model_metadata E self h) =
     [Called (Open_file (Div (Path od') (mn @ ''_metadata.json'')) ''w'') Returned,
      Called (Json_dump (metadata self) 2 (Div (Path od') (mn @ ''_metadata.json''))) Returned,
      Called (Close_file (Div (Path od') (mn @ ''_metadata.json''))) Returned,
      Logged INFO (Model_metadata_saved_to (Div (Path od') (mn @ ''_metadata.json'')))]
    \<and> json_get (metadata self) ''classes'' = Some (JArray [JString ''ball'', JString ''club_head''])
    \<and> json_get (metadata self) ''confidence_threshold'' = Some (JFloat 0.25)
    \<and> json_get (metadata self) ''nms_threshold'' = Some (JFloat 0.45)
    \<and> json_get (metadata self) ''input_shape'' = Some (JArray [JInt 1, JInt 640, JInt 640, JInt 3])"
proof -
  from init_result[OF assms(1)]
  have "metadata_path self = Div (Path od') (mn @ ''_metadata.json'')" "input_size self = 640"
    by (simp_all add: metadata_path_def)
  with create_model_metadata_run[OF assms(2)] show ?thesis
    by (simp add: metadata_def)
qed

theorem metadata_sidecar_example:
  "snd (create_model_metadata all_fine golf []) =
     [Called (Open_file (Div (Path ''models'') ''golf_metadata.json'') ''w'') Returned,
      Called (Json_dump (metadata golf) 2 (Div (Path ''models'') ''golf_metadata.json'')) Returned,
      Called (Close_file (Div (Path ''models'') ''golf_metadata.json'')) Returned,
      Logged INFO (Model_metadata_saved_to (Div (Path ''models'') ''golf_metadata.json''))]
   \<and> json_get (metadata golf) ''input_shape'' = Some (JArray [JInt 1, JInt 640, JInt 640, JInt 3])"
proof -
  have "fst (init all_fine ''best.pt'' ''models'' ''golf'' []) = Inr golf"
    by code_simp
  moreover have "\<not> list_ex is_raised (snd (create_model_metadata all_fine golf []))"
    by code_simp
  ultimately show ?thesis
    using metadata_sidecar_contents[of all_fine "''best.pt''" "''models''" "''golf''" "[]" golf "[]"]
    by simp
qed

subsection \<open>Relocating the exported file\<close>

text \<open>
  C7, as stated, fails: when the file the library is expected to leave beside the source
  model does not exist, the export step skips the relocation and still returns success.
\<close>

theorem export_success_without_relocation:
  "fst (export_to_onnx nothing_generated golf (YOLO (model_path golf)) []) = Inr True
   \<and> renames (snd (export_to_onnx nothing_generated golf (YOLO (model_path golf)) [])) = []"
  by code_simp

text \<open>
  C7, amended. For a converter object made by \<^verbatim>\<open>__init__\<close>: a run of the export step that
  returns success has relocated the source path with its suffix replaced by \<^verbatim>\<open>.onnx\<close> to
  \<^verbatim>\<open><od'>/<mn>.onnx\<close> exactly when that file existed after the library's export call, and
  has relocated nothing otherwise.
\<close>

theorem export_relocates_when_generated:
  assumes "fst (init E mp od' mn h0) = Inr self"
    and "fst (export_to_onnx E self model h) = Inr True"
  shows "renames (snd (export_to_onnx E self model h)) =
     (if exists_result E
           (h @ [Logged INFO (Exporting_to_ONNX (Div (Path od') (mn @ ''.onnx''))),
                 Called (Model_export model
                   \<lparr>format = ''onnx'', imgsz = 640, dynamic = False, simplify = True,
                    opset = 11\<rparr>) Returned,
                 Called (Path_with_suffix (Path mp) ''.onnx'') Returned,
                 Called (Path_exists (WithSuffix (Path mp) ''.onnx'')) Returned])
           (WithSuffix (Path mp) ''.onnx'')
      then [(WithSuffix (Path mp) ''.onnx'', Div (Path od') (mn @ ''.onnx''))]
      else [])"
proof -
  let ?kw = "\<lparr>format = ''onnx'', imgsz = 640, dynamic = False, simplify = True, opset = 11\<rparr>"
  let ?g = "WithSuffix (Path mp) ''.onnx''"
  let ?o = "Div (Path od') (mn @ ''.onnx'')"
  let ?h1 = "h @ [Logged INFO (Exporting_to_ONNX ?o)]"
  let ?h2 = "?h1 @ [Called (Model_export model ?kw) Returned]"
  let ?h3 = "?h2 @ [Called (Path_with_suffix (Path mp) ''.onnx'') Returned]"
  let ?h4 = "?h3 @ [Called (Path_exists ?g) Returned]"
  let ?h5 = "?h4 @ [Called (Path_rename ?g ?o) Returned]"
  from init_result[OF assms(1)]
  have self: "model_path self = Path mp" "onnx_path self = ?o" "input_size self = 640"
    by simp_all
  obtain b4 n4 where v4: "verify_onnx_model E self ?h4 = (Inr b4, n4)"
    using verdict_verify_onnx_model[of E self] by (metis verdict_def prod.collapse)
  obtain b5 n5 where v5: "verify_onnx_model E self ?h5 = (Inr b5, n5)"
    using verdict_verify_onnx_model[of E self] by (metis verdict_def prod.collapse)
  have r4: "renames n4 = []" using renames_verify_onnx_model[of E self ?h4] v4 by simp
  have r5: "renames n5 = []" using renames_verify_onnx_model[of E self ?h5] v5 by simp
  show ?thesis
    using assms(2) v4 v5 r4 r5
    by (simp add: export_to_onnx_def self Let_def try_except_def thenE_def bindE_def
        path_exists_def lib_def askE_def logger_info_def logger_error_def returnE_def
        renames_append
        split: option.splits if_splits)
qed

theorem export_relocation_example:
  "renames (snd (export_to_onnx all_fine golf (YOLO (model_path golf)) [])) =
     [(WithSuffix (Path ''best.pt'') ''.onnx'', Div (Path ''models'') ''golf.onnx'')]"
proof -
  have "fst (init all_fine ''best.pt'' ''models'' ''golf'' []) = Inr golf"
    by code_simp
  moreover have "fst (export_to_onnx all_fine golf (YOLO (model_path golf)) []) = Inr True"
    by code_simp
  moreover have "exists_result all_fine X (WithSuffix (Path ''best.pt'') ''.onnx'')" for X
    by (simp add: all_fine_def library_def)
  ultimately show ?thesis
    using export_relocates_when_generated[of all_fine "''best.pt''" "''models''" "''golf''" "[]"
        golf "YOLO (model_path golf)" "[]"]
    by simp
qed

subsection \<open>The exit status\<close>

text \<open>
  C8. The exit status is 0 exactly when the source file exists and no library call
  outside the diagnostic steps raised, that is when directory creation, loading, export,
  every requested conversion and the metadata all went through; it is 1 otherwise: when
  the file is missing, when an exception reaches \<^verbatim>\<open>main\<close> or leaves it, and when export or
  a conversion reported failure.
\<close>

theorem exit_status_characterisation:
  "exit_status E a h =
     (if exists_result E (h @ [Called (Path_exists (Path (arg_model_path a))) Returned])
           (Path (arg_model_path a))
         \<and> \<not> list_ex essential_raised (snd (main E a h))
      then 0 else 1)"
proof -
  let ?p = "Path (arg_model_path a)"
  show ?thesis
  proof (cases "raises E h (Path_exists ?p)")
    case (Some m)
    then show ?thesis
      by (simp add: exit_status_def main_def path_exists_def thenE_def bindE_def lib_def)
  next
    case None
    let ?h1 = "h @ [Called (Path_exists ?p) Returned]"
    have pe: "path_exists E ?p h = (Inr (exists_result E ?h1 ?p), [Called (Path_exists ?p) Returned])"
      using None by (simp add: path_exists_def thenE_def bindE_def lib_def askE_def)
    show ?thesis
    proof (cases "exists_result E ?h1 ?p")
      case False
      with pe show ?thesis
        by (simp add: exit_status_def main_def thenE_def bindE_def logger_error_def returnE_def)
    next
      case True
      obtain r n where i: "init E (arg_model_path a) (arg_output_dir a) (arg_model_name a) ?h1 = (r, n)"
        by (cases "init E (arg_model_path a) (arg_output_dir a) (arg_model_name a) ?h1")
      have ti: "isl r = list_ex essential_raised n"
        using tracks_init[of E "arg_model_path a" "arg_output_dir a" "arg_model_name a"] i
        by (auto simp: tracks_def dest: spec[of _ ?h1])
      show ?thesis
      proof (cases r)
        case (Inl e)
        with pe True i ti show ?thesis
          by (simp add: exit_status_def main_def bindE_def)
      next
        case (Inr converter)
        let ?h2 = "?h1 @ n"
        obtain r' n' where c: "conversion E converter (arg_quantization a) ?h2 = (r', n')"
          by (cases "conversion E converter (arg_quantization a) ?h2")
        have j: "case r' of Inl e \<Rightarrow> list_ex essential_raised n'
                 | Inr b \<Rightarrow> b = (\<not> list_ex essential_raised n')"
          using judged_conversion[of E converter "arg_quantization a"] c
          by (auto simp: judged_def dest: spec[of _ ?h2])
        show ?thesis
        proof (cases r')
          case (Inl e)
          with pe True i ti Inr c j show ?thesis
            by (simp add: exit_status_def main_def bindE_def try_except_def thenE_def
                logger_error_def returnE_def)
        next
          case (Inr b)
          with pe True i ti \<open>r = Inr converter\<close> c j show ?thesis
            by (cases b)
               (simp_all add: exit_status_def main_def bindE_def try_except_def thenE_def
                logger_error_def logger_info_def returnE_def)
        qed
      qed
    qed
  qed
qed

theorem exit_status_examples:
  "exit_status corrupt_artifact (golf_args ''all'') [] = 0
   \<and> exit_status convert_fails (golf_args ''fp16'') [] = 1"
proof -
  have "exists_result corrupt_artifact
          ([] @ [Called (Path_exists (Path (arg_model_path (golf_args ''all'')))) Returned])
          (Path (arg_model_path (golf_args ''all'')))"
    by code_simp
  moreover have "\<not> list_ex essential_raised (snd (main corrupt_artifact (golf_args ''all'') []))"
    by code_simp
  moreover have "list_ex essential_raised (snd (main convert_fails (golf_args ''fp16'') []))"
    by code_simp
  ultimately show ?thesis
    using exit_status_characterisation[of corrupt_artifact "golf_args ''all''" "[]"]
      exit_status_characterisation[of convert_fails "golf_args ''fp16''" "[]"]
    by simp
qed

subsection \<open>Export and the check of the interchange file\<close>

text \<open>
  C9. The check of the interchange file never raises: it returns \<open>False\<close> exactly when
  one of its library calls raised. The export step never raises either, and it returns
  \<open>True\<close> exactly when none of its own library calls raised: the calls of the check are
  not among them, so neither a \<open>False\<close> from the check nor an exception inside it makes
  export fail.
\<close>

theorem export_ignores_verification:
  "fst (verify_onnx_model E self h) =
     Inr (\<not> list_ex is_raised (snd (verify_onnx_model E self h)))
   \<and> fst (export_to_onnx E self model h) =
       Inr (\<not> list_ex essential_raised (snd (export_to_onnx E self model h)))"
  using verdict_verify_onnx_model[of E self] verdict_export_to_onnx[of E self model]
  by (simp add: verdict_def)

theorem export_succeeds_on_invalid_onnx:
  "fst (export_to_onnx onnx_invalid golf (YOLO (model_path golf)) []) = Inr True
   \<and> Logged ERROR (ONNX_verification_failed (Exception ''invalid''))
       \<in> set (snd (export_to_onnx onnx_invalid golf (YOLO (model_path golf)) []))"
proof -
  have "\<not> list_ex essential_raised
          (snd (export_to_onnx onnx_invalid golf (YOLO (model_path golf)) []))"
    by code_simp
  moreover have "Logged ERROR (ONNX_verification_failed (Exception ''invalid''))
       \<in> set (snd (export_to_onnx onnx_invalid golf (YOLO (model_path golf)) []))"
    by code_simp
  ultimately show ?thesis
    using export_ignores_verification[of onnx_invalid golf "[]" "YOLO (model_path golf)"]
    by simp
qed

subsection \<open>Metadata after a failed conversion\<close>

text \<open>
  C10. With a single quantization selected: when the source exists, the converter object
  is made, the model loads, the export step returns success, the convert step returns
  failure and no call of the metadata step raises, the run still writes the metadata
  file, after the failed convert step, and ends with exit status 1.
\<close>

theorem metadata_written_after_failed_convert:
  assumes "arg_quantization a \<noteq> ''all''"
    and "path_exists E (Path (arg_model_path a)) h = (Inr True, ne)"
    and "init E (arg_model_path a) (arg_output_dir a) (arg_model_name a) (h @ ne) = (Inr self, ni)"
    and "load_yolo_model E self (h @ ne @ ni) = (Inr model, nl)"
    and "export_to_onnx E self model (h @ ne @ ni @ nl) = (Inr True, nx)"
    and "convert_to_tflite E self (arg_quantization a) (h @ ne @ ni @ nl @ nx) = (Inr False, nc)"
    and "\<not> list_ex is_raised (snd (create_model_metadata E self (h @ ne @ ni @ nl @ nx @ nc)))"
  shows "exit_status E a h = 1
    \<and> snd (main E a h) =
        ne @ ni @ nl @ nx @ nc @
        [Called (Open_file (metadata_path self) ''w'') Returned,
         Called (Json_dump (metadata self) 2 (metadata_path self)) Returned,
         Called (Close_file (metadata_path self)) Returned,
         Logged INFO (Model_metadata_saved_to (metadata_path self)),
         Logged ERROR Conversion_failed]"
proof -
  note m = create_model_metadata_run[OF assms(7)]
  have c: "conversion E self (arg_quantization a) (h @ ne @ ni) =
        (Inr False, nl @ nx @ nc @ snd (create_model_metadata E self (h @ ne @ ni @ nl @ nx @ nc)))"
    using assms(1,4,5,6) m
    by (simp add: conversion_def bindE_def thenE_def returnE_def)
  have "main E a h =
        (Inr 1, ne @ ni @ nl @ nx @ nc @
           snd (create_model_metadata E self (h @ ne @ ni @ nl @ nx @ nc)) @
           [Logged ERROR Conversion_failed])"
    using assms(2,3) c
    by (simp add: main_def bindE_def try_except_def thenE_def returnE_def logger_error_def)
  then show ?thesis by (simp add: exit_status_def m)
qed

theorem metadata_written_example:
  "exit_status convert_fails (golf_args ''fp16'') [] = 1
   \<and> Called (Json_dump (metadata golf) 2 (metadata_path golf)) Returned
       \<in> set (snd (main convert_fails (golf_args ''fp16'') []))"
proof -
  let ?a = "golf_args ''fp16''"
  define ne where "ne = snd (path_exists convert_fails (Path (arg_model_path ?a)) [])"
  define ni where "ni = snd (init convert_fails (arg_model_path ?a) (arg_output_dir ?a)
    (arg_model_name ?a) ([] @ ne))"
  define nl where "nl = snd (load_yolo_model convert_fails golf ([] @ ne @ ni))"
  define nx where "nx = snd (export_to_onnx convert_fails golf (YOLO (Path ''best.pt''))
    ([] @ ne @ ni @ nl))"
  define nc where "nc = snd (convert_to_tflite convert_fails golf (arg_quantization ?a)
    ([] @ ne @ ni @ nl @ nx))"
  have "arg_quantization ?a \<noteq> ''all''"
    by code_simp
  moreover have "path_exists convert_fails (Path (arg_model_path ?a)) [] = (Inr True, ne)"
    unfolding ne_def by code_simp
  moreover have "init convert_fails (arg_model_path ?a) (arg_output_dir ?a) (arg_model_name ?a)
      ([] @ ne) = (Inr golf, ni)"
    unfolding ne_def ni_def by code_simp
  moreover have "load_yolo_model convert_fails golf ([] @ ne @ ni) = (Inr (YOLO (Path ''best.pt'')), nl)"
    unfolding ne_def ni_def nl_def by code_simp
  moreover have "export_to_onnx convert_fails golf (YOLO (Path ''best.pt'')) ([] @ ne @ ni @ nl) =
      (Inr True, nx)"
    unfolding ne_def ni_def nl_def nx_def by code_simp
  moreover have "convert_to_tflite convert_fails golf (arg_quantization ?a)
      ([] @ ne @ ni @ nl @ nx) = (Inr False, nc)"
    unfolding ne_def ni_def nl_def nx_def nc_def by code_simp
  moreover have "\<not> list_ex is_raised
      (snd (create_model_metadata convert_fails golf ([] @ ne @ ni @ nl @ nx @ nc)))"
    unfolding ne_def ni_def nl_def nx_def nc_def by code_simp
  ultimately show ?thesis
    using metadata_written_after_failed_convert[of ?a convert_fails "[]" ne golf ni
        "YOLO (Path ''best.pt'')" nl nx nc]
    by simp
qed

end
